theory Spec2Isabelle
  imports Complex_Main
begin

section \<open>Python values used by the pipeline\<close>

text \<open>
  A Python \<^verbatim>\<open>str\<close> is a sequence of Unicode code points, so it is modelled as a list of
  naturals (Thai text and the box-drawing rule of \<^verbatim>\<open>format_context\<close> do not fit an
  8-bit character).  \<open>ascii\<close> embeds an ASCII literal.
\<close>

type_synonym ustring = "nat list"

definition ascii :: "string \<Rightarrow> ustring" where
  "ascii s = map of_char s"

text \<open>Metadata values are file names (strings) and page numbers or indices (integers).\<close>

datatype pyval = VInt int | VStr ustring

text \<open>\<^verbatim>\<open>langchain_core.documents.Document\<close>: text plus a metadata dictionary.\<close>

record document =
  page_content :: ustring
  metadata :: "(ustring \<times> pyval) list"

text \<open>A raised \<^verbatim>\<open>Exception\<close>; \<open>str_exn\<close> is \<^verbatim>\<open>str(e)\<close>.\<close>

datatype exn = Exception ustring

fun str_exn :: "exn \<Rightarrow> ustring" where
  "str_exn (Exception m) = m"

text \<open>\<^verbatim>\<open>str(n)\<close> for an integer, as an f-string renders it.\<close>

fun str_nat :: "nat \<Rightarrow> ustring" where
  "str_nat n = (if n < 10 then [48 + n] else str_nat (n div 10) @ [48 + n mod 10])"

declare str_nat.simps [simp del]

definition str_int :: "int \<Rightarrow> ustring" where
  "str_int i = (if i < 0 then 45 # str_nat (nat (- i)) else str_nat (nat i))"

fun str_val :: "pyval \<Rightarrow> ustring" where
  "str_val (VInt i) = str_int i"
| "str_val (VStr s) = s"

text \<open>\<^verbatim>\<open>d.get(key, default)\<close> on a metadata dictionary.\<close>

definition dict_get :: "(ustring \<times> pyval) list \<Rightarrow> ustring \<Rightarrow> pyval \<Rightarrow> pyval" where
  "dict_get d k dflt = (case map_of d k of None \<Rightarrow> dflt | Some v \<Rightarrow> v)"

text \<open>\<^verbatim>\<open>sep.join(parts)\<close>.\<close>

fun join :: "ustring \<Rightarrow> ustring list \<Rightarrow> ustring" where
  "join sep [] = []"
| "join sep [p] = p"
| "join sep (p # q # ps) = p @ sep @ join sep (q # ps)"

text \<open>
  \<^verbatim>\<open>k or default\<close> for an optional integer and \<^verbatim>\<open>threshold or default\<close> for an optional
  float: Python's \<^verbatim>\<open>or\<close> takes the right operand when the left one is falsy, and both
  \<^verbatim>\<open>None\<close> and zero are falsy.  Distances and thresholds are floats in the source; the
  model reads them as real numbers and subtracts exactly, where the code rounds the
  difference to the nearest double (the two agree unless a distance lies within one
  rounding error of the cut-off); infinities and NaN are left out.
\<close>

definition int_or :: "int option \<Rightarrow> int \<Rightarrow> int" where
  "int_or k d = (case k of None \<Rightarrow> d | Some n \<Rightarrow> if n = 0 then d else n)"

definition float_or :: "real option \<Rightarrow> real \<Rightarrow> real" where
  "float_or t d = (case t of None \<Rightarrow> d | Some x \<Rightarrow> if x = 0 then d else x)"

section \<open>Configuration (app/config.py)\<close>

definition NUM_RELEVANT_DOCS :: int where
  "NUM_RELEVANT_DOCS = 4"

definition RETRIEVAL_THRESHOLD :: real where
  "RETRIEVAL_THRESHOLD = 0.3"

section \<open>The external collaborators\<close>

text \<open>
  The Chroma collection, the language-model chain and the clock are not part of the
  repository.  The world record holds what the code can observe of them:
  \<^item> \<open>entries\<close>: the stored chunks with their ids;
  \<^item> \<open>fault\<close>: which kind of backend call currently raises, and with which exception;
  \<^item> \<open>nearest\<close>: the ranked \<open>(chunk, distance)\<close> answer of the index to a query with fan-out \<open>k\<close>;
  \<^item> \<open>llm\<close>: the outcome of the \<open>n\<close>-th chain invocation (counted from 0) on a template and
    its variables;
  \<^item> \<open>trace\<close>: every call made to a collaborator, in order, including the pauses;
  \<^item> \<open>set_order\<close>: the order in which a Python \<^verbatim>\<open>set\<close> built from the given values is
    iterated.  It depends on the hash seed of the process, so it is a parameter: the
    values are listed by ascending key.
  Only \<open>entries\<close>, \<open>next_id\<close> and \<open>trace\<close> are ever written.  Text printed to the console
  is not modelled.
\<close>

datatype op = OpAdd | OpSearch | OpCount | OpGet | OpDelete

datatype event =
    DbAdd "document list"
  | DbSearch ustring int
  | DbSearchScore ustring int
  | DbCount
  | DbGetAll
  | DbGetWhere ustring
  | DbDelete "nat list"
  | LlmInvoke ustring "(ustring \<times> ustring) list"
  | Sleep nat

record world =
  entries :: "(nat \<times> document) list"
  next_id :: nat
  trace :: "event list"
  fault :: "op \<Rightarrow> exn option"
  nearest :: "ustring \<Rightarrow> int \<Rightarrow> (document \<times> real) list"
  llm :: "nat \<Rightarrow> ustring \<Rightarrow> (ustring \<times> ustring) list \<Rightarrow> exn + ustring"
  set_order :: "pyval list \<Rightarrow> pyval \<Rightarrow> nat"

definition log :: "event \<Rightarrow> world \<Rightarrow> world" where
  "log e w = w\<lparr>trace := trace w @ [e]\<rparr>"

text \<open>
  A backend call either raises (\<open>Inl\<close>) or returns (\<open>Inr\<close>); in both cases it is logged.
  A call that raises leaves the collection as it was.
\<close>

definition db_add_documents :: "world \<Rightarrow> document list \<Rightarrow> (exn + unit) \<times> world" where
  "db_add_documents w docs =
     (case fault w OpAdd of
        Some e \<Rightarrow> (Inl e, log (DbAdd docs) w)
      | None \<Rightarrow>
          (Inr (), log (DbAdd docs)
             (w\<lparr>entries := entries w @ zip [next_id w ..< next_id w + length docs] docs,
                next_id := next_id w + length docs\<rparr>)))"

definition db_similarity_search_with_score ::
  "world \<Rightarrow> ustring \<Rightarrow> int \<Rightarrow> (exn + (document \<times> real) list) \<times> world" where
  "db_similarity_search_with_score w q k =
     (case fault w OpSearch of
        Some e \<Rightarrow> (Inl e, log (DbSearchScore q k) w)
      | None \<Rightarrow> (Inr (nearest w q k), log (DbSearchScore q k) w))"

definition db_similarity_search ::
  "world \<Rightarrow> ustring \<Rightarrow> int \<Rightarrow> (exn + document list) \<times> world" where
  "db_similarity_search w q k =
     (case fault w OpSearch of
        Some e \<Rightarrow> (Inl e, log (DbSearch q k) w)
      | None \<Rightarrow> (Inr (map fst (nearest w q k)), log (DbSearch q k) w))"

definition collection_count :: "world \<Rightarrow> (exn + nat) \<times> world" where
  "collection_count w =
     (case fault w OpCount of
        Some e \<Rightarrow> (Inl e, log DbCount w)
      | None \<Rightarrow> (Inr (length (entries w)), log DbCount w))"

text \<open>\<^verbatim>\<open>collection.get(include=["metadatas"])\<close>: the metadata of every stored chunk.\<close>

definition collection_get_all :: "world \<Rightarrow> (exn + (ustring \<times> pyval) list list) \<times> world" where
  "collection_get_all w =
     (case fault w OpGet of
        Some e \<Rightarrow> (Inl e, log DbGetAll w)
      | None \<Rightarrow> (Inr (map (\<lambda>(i, d). metadata d) (entries w)), log DbGetAll w))"

text \<open>
  \<^verbatim>\<open>collection.get(where={"source": s})\<close>: the ids of the chunks whose \<^verbatim>\<open>source\<close> metadata
  is equal to \<open>s\<close>.
\<close>

definition collection_get_where :: "world \<Rightarrow> ustring \<Rightarrow> (exn + nat list) \<times> world" where
  "collection_get_where w s =
     (case fault w OpGet of
        Some e \<Rightarrow> (Inl e, log (DbGetWhere s) w)
      | None \<Rightarrow>
          (Inr (map fst (filter (\<lambda>(i, d). map_of (metadata d) (ascii ''source'') = Some (VStr s))
                  (entries w))),
           log (DbGetWhere s) w))"

definition collection_delete :: "world \<Rightarrow> nat list \<Rightarrow> (exn + unit) \<times> world" where
  "collection_delete w ids =
     (case fault w OpDelete of
        Some e \<Rightarrow> (Inl e, log (DbDelete ids) w)
      | None \<Rightarrow>
          (Inr (), log (DbDelete ids)
             (w\<lparr>entries := filter (\<lambda>(i, d). i \<notin> set ids) (entries w)\<rparr>)))"

section \<open>The index adapter (vector\_store/vector\_db\_manager.py)\<close>

text \<open>
  Every adapter method has the result type of a Python call, \<open>exn + 'a\<close>, so that
  ``never raises'' is a theorem and not a convention of the model.
\<close>

definition get_document_count :: "world \<Rightarrow> (exn + nat) \<times> world" where
  "get_document_count w =
     (case collection_count w of
        (Inr n, w') \<Rightarrow> (Inr n, w')
      | (Inl e, w') \<Rightarrow> (Inr 0, w'))"

text \<open>
  \<^verbatim>\<open>add_documents\<close>: inside the \<^verbatim>\<open>try\<close>, after the backend call, the new total is read with
  \<^verbatim>\<open>get_document_count\<close> for a progress message.
\<close>

definition add_documents :: "world \<Rightarrow> document list \<Rightarrow> (exn + nat) \<times> world" where
  "add_documents w documents =
     (if documents = [] then (Inr 0, w)
      else case db_add_documents w documents of
             (Inr u, w1) \<Rightarrow>
               (case get_document_count w1 of
                  (Inr shown, w2) \<Rightarrow> (Inr (length documents), w2)
                | (Inl e, w2) \<Rightarrow> (Inr 0, w2))
           | (Inl e, w1) \<Rightarrow> (Inr 0, w1))"

text \<open>
  \<^verbatim>\<open>similarity_search\<close>: before the \<^verbatim>\<open>try\<close>, the number of stored chunks is read with
  \<^verbatim>\<open>get_document_count\<close> for a progress message; an exception there would leave the method.
  \<^verbatim>\<open>similarity_search_with_score\<close> makes no such call.
\<close>

definition similarity_search ::
  "world \<Rightarrow> ustring \<Rightarrow> int option \<Rightarrow> (exn + document list) \<times> world" where
  "similarity_search w query k =
     (case get_document_count w of
        (Inl e, w1) \<Rightarrow> (Inl e, w1)
      | (Inr shown, w1) \<Rightarrow>
          (case db_similarity_search w1 query (int_or k NUM_RELEVANT_DOCS) of
             (Inr results, w2) \<Rightarrow> (Inr results, w2)
           | (Inl e, w2) \<Rightarrow> (Inr [], w2)))"

definition similarity_search_with_score ::
  "world \<Rightarrow> ustring \<Rightarrow> int option \<Rightarrow> (exn + (document \<times> real) list) \<times> world" where
  "similarity_search_with_score w query k =
     (case db_similarity_search_with_score w query (int_or k NUM_RELEVANT_DOCS) of
        (Inr results, w') \<Rightarrow> (Inr results, w')
      | (Inl e, w') \<Rightarrow> (Inr [], w'))"

text \<open>
  \<^verbatim>\<open>list(set(values))\<close>: each value once, in the iteration order of the set, which the
  world gives as a key for each value (values with equal keys stay in list order).
\<close>

definition list_of_set :: "world \<Rightarrow> pyval list \<Rightarrow> pyval list" where
  "list_of_set w vs = sort_key (set_order w vs) (remdups vs)"

text \<open>
  \<^verbatim>\<open>get_all_sources\<close> collects the \<^verbatim>\<open>source\<close> values of the metadata dictionaries that have
  one in a set and returns \<^verbatim>\<open>list(sources)\<close>.
\<close>

definition sources_of :: "(ustring \<times> pyval) list list \<Rightarrow> pyval list" where
  "sources_of mds = List.map_filter (\<lambda>md. map_of md (ascii ''source'')) mds"

definition get_all_sources :: "world \<Rightarrow> (exn + pyval list) \<times> world" where
  "get_all_sources w =
     (case collection_get_all w of
        (Inr mds, w') \<Rightarrow> (Inr (list_of_set w' (sources_of mds)), w')
      | (Inl e, w') \<Rightarrow> (Inr [], w'))"

definition delete_by_source :: "world \<Rightarrow> ustring \<Rightarrow> (exn + bool) \<times> world" where
  "delete_by_source w source_name =
     (case collection_get_where w source_name of
        (Inl e, w') \<Rightarrow> (Inr False, w')
      | (Inr ids_to_delete, w') \<Rightarrow>
          (if ids_to_delete \<noteq> [] then
             (case collection_delete w' ids_to_delete of
                (Inl e, w'') \<Rightarrow> (Inr False, w'')
              | (Inr u, w'') \<Rightarrow> (Inr True, w''))
           else (Inr False, w')))"

section \<open>The retriever (vector\_store/retriever.py)\<close>

definition retrieve :: "world \<Rightarrow> ustring \<Rightarrow> int option \<Rightarrow> (exn + document list) \<times> world" where
  "retrieve w query k = similarity_search w query (Some (int_or k NUM_RELEVANT_DOCS))"

definition retrieve_with_scores ::
  "world \<Rightarrow> ustring \<Rightarrow> int option \<Rightarrow> (exn + (document \<times> real) list) \<times> world" where
  "retrieve_with_scores w query k =
     similarity_search_with_score w query (Some (int_or k NUM_RELEVANT_DOCS))"

text \<open>The loop of \<^verbatim>\<open>retrieve_relevant\<close> over the scored results.\<close>

fun relevant_docs :: "real \<Rightarrow> (document \<times> real) list \<Rightarrow> document list" where
  "relevant_docs threshold [] = []"
| "relevant_docs threshold ((doc, score) # rest) =
     (if score < 2 - threshold then doc # relevant_docs threshold rest
      else relevant_docs threshold rest)"

definition retrieve_relevant ::
  "world \<Rightarrow> ustring \<Rightarrow> int option \<Rightarrow> real option \<Rightarrow> (exn + document list) \<times> world" where
  "retrieve_relevant w query k threshold =
     (case retrieve_with_scores w query (Some (int_or k NUM_RELEVANT_DOCS)) of
        (Inl e, w') \<Rightarrow> (Inl e, w')
      | (Inr results_with_scores, w') \<Rightarrow>
          (Inr (relevant_docs (float_or threshold RETRIEVAL_THRESHOLD) results_with_scores), w'))"

text \<open>
  One block of \<^verbatim>\<open>format_context\<close>:
  \<^verbatim>\<open>f"[<doc-word> {i}: {source} | <page-word> {page}]\n{doc.page_content}"\<close>,
  the two Thai words given by their code points.
\<close>

definition context_part :: "nat \<Rightarrow> document \<Rightarrow> ustring" where
  "context_part i doc =
     ascii ''['' @ [3648, 3629, 3585, 3626, 3634, 3619] @ ascii '' '' @ str_nat i @ ascii '': ''
       @ str_val (dict_get (metadata doc) (ascii ''source'') (VStr (ascii ''unknown'')))
       @ ascii '' | '' @ [3627, 3609, 3657, 3634] @ ascii '' ''
       @ str_val (dict_get (metadata doc) (ascii ''page'') (VStr (ascii ''?'')))
       @ ascii '']'' @ [10] @ page_content doc"

text \<open>\<^verbatim>\<open>enumerate(docs, 1)\<close> mapped to the blocks.\<close>

fun context_parts :: "nat \<Rightarrow> document list \<Rightarrow> ustring list" where
  "context_parts i [] = []"
| "context_parts i (doc # docs) = context_part i doc # context_parts (Suc i) docs"

text \<open>
  The return expression is \<^verbatim>\<open>"\n\n" + "-" * 50 + "\n\n".join(context_parts)\<close> with the
  rule character U+2500: \<^verbatim>\<open>*\<close> and the method call bind tighter than \<^verbatim>\<open>+\<close>, so the string
  that joins the parts is \<^verbatim>\<open>"\n\n"\<close>.
\<close>

definition rule_line :: ustring where
  "rule_line = replicate 50 9472"

definition format_context :: "document list \<Rightarrow> ustring" where
  "format_context docs =
     (if docs = [] then []
      else [10, 10] @ rule_line @ join [10, 10] (context_parts 1 docs))"

definition has_documents :: "world \<Rightarrow> (exn + bool) \<times> world" where
  "has_documents w =
     (case get_document_count w of
        (Inl e, w') \<Rightarrow> (Inl e, w')
      | (Inr n, w') \<Rightarrow> (Inr (n > 0), w'))"

section \<open>Regular expressions as the text cleaner uses them\<close>

text \<open>
  Python's \<^verbatim>\<open>\s\<close> and \<^verbatim>\<open>str.strip()\<close> use \<^verbatim>\<open>str.isspace\<close>, and \<^verbatim>\<open>\d\<close> on a \<^verbatim>\<open>str\<close> pattern
  is \<^verbatim>\<open>str.isdecimal\<close> (category Nd).  Both tables are those of Unicode 14.
\<close>

definition py_isspace :: "nat \<Rightarrow> bool" where
  "py_isspace c \<longleftrightarrow>
     (9 \<le> c \<and> c \<le> 13) \<or> (28 \<le> c \<and> c \<le> 32) \<or> c = 133 \<or> c = 160 \<or> c = 5760
     \<or> (8192 \<le> c \<and> c \<le> 8202) \<or> c = 8232 \<or> c = 8233 \<or> c = 8239 \<or> c = 8287 \<or> c = 12288"

definition decimal_blocks :: "nat list" where
  "decimal_blocks =
     [48, 1632, 1776, 1984, 2406, 2534, 2662, 2790, 2918, 3046, 3174, 3302, 3430, 3558, 3664,
      3792, 3872, 4160, 4240, 6112, 6160, 6470, 6608, 6784, 6800, 6992, 7088, 7232, 7248, 42528,
      43216, 43264, 43472, 43504, 43600, 44016, 65296, 66720, 68912, 69734, 69872, 69942, 70096,
      70384, 70736, 70864, 71248, 71360, 71472, 71904, 72016, 72784, 73040, 73120, 92768, 92864,
      93008, 120782, 120792, 120802, 120812, 120822, 123200, 123632, 125264, 130032]"

text \<open>Every block of decimal digits is ten consecutive code points, zero first.\<close>

definition py_isdecimal :: "nat \<Rightarrow> bool" where
  "py_isdecimal c \<longleftrightarrow> list_ex (\<lambda>z. z \<le> c \<and> c \<le> z + 9) decimal_blocks"

text \<open>
  The patterns of the cleaner are sequences of anchors and of greedy repetitions of a
  single-character class: \<open>Cls p lo hi\<close> is \<^verbatim>\<open>[p]{lo,hi}\<close>, with \<open>hi = None\<close> for no upper
  bound; \<open>Bol\<close> and \<open>Eol\<close> are \<^verbatim>\<open>^\<close> and \<^verbatim>\<open>$\<close> under \<^verbatim>\<open>re.MULTILINE\<close>.
\<close>

datatype atom = Cls "nat \<Rightarrow> bool" nat "nat option" | Bol | Eol

type_synonym regex = "atom list"

definition Chr :: "nat \<Rightarrow> atom" where
  "Chr c = Cls (\<lambda>x. x = c) 1 (Some 1)"

definition Star :: "(nat \<Rightarrow> bool) \<Rightarrow> atom" where
  "Star p = Cls p 0 None"

definition Plus :: "(nat \<Rightarrow> bool) \<Rightarrow> atom" where
  "Plus p = Cls p 1 None"

fun first_some :: "(nat \<Rightarrow> nat option) \<Rightarrow> nat list \<Rightarrow> nat option" where
  "first_some f [] = None"
| "first_some f (k # ks) = (case f k of Some j \<Rightarrow> Some j | None \<Rightarrow> first_some f ks)"

text \<open>How many characters a greedy repetition can take at most.\<close>

definition run :: "(nat \<Rightarrow> bool) \<Rightarrow> nat option \<Rightarrow> ustring \<Rightarrow> nat" where
  "run p hi xs =
     (case hi of None \<Rightarrow> length (takeWhile p xs) | Some h \<Rightarrow> min h (length (takeWhile p xs)))"

text \<open>The character before the position reached after \<open>k\<close> more characters.\<close>

definition prev_after :: "nat option \<Rightarrow> ustring \<Rightarrow> nat \<Rightarrow> nat option" where
  "prev_after prev xs k = (if k = 0 then prev else Some (last (take k xs)))"

text \<open>
  \<open>match_len r prev xs\<close> is the length of the match of \<open>r\<close> that the backtracking matcher
  finds at the position whose remaining text is \<open>xs\<close> and whose preceding character is
  \<open>prev\<close> (\<open>None\<close> at the start of the text): each repetition first takes as many characters
  as it can and gives them back one by one until the rest of the pattern matches.
\<close>

primrec match_len :: "regex \<Rightarrow> nat option \<Rightarrow> ustring \<Rightarrow> nat option" where
  "match_len [] prev xs = Some 0"
| "match_len (a # r) prev xs =
     (case a of
        Bol \<Rightarrow> if prev = None \<or> prev = Some 10 then match_len r prev xs else None
      | Eol \<Rightarrow> if xs = [] \<or> hd xs = 10 then match_len r prev xs else None
      | Cls p lo hi \<Rightarrow>
          first_some
            (\<lambda>k. map_option (\<lambda>m. k + m) (match_len r (prev_after prev xs k) (drop k xs)))
            (rev [lo ..< Suc (run p hi xs)]))"

text \<open>
  \<^verbatim>\<open>re.sub(r, repl, text)\<close>: the text is scanned from the left; where the pattern matches,
  the match is replaced and the scan goes on behind it.  (No pattern of the cleaner
  matches the empty string; for completeness an empty match inserts the replacement and
  the scan moves on by one character.)
\<close>

fun sub_from :: "regex \<Rightarrow> ustring \<Rightarrow> nat option \<Rightarrow> ustring \<Rightarrow> ustring" where
  "sub_from r repl prev [] = (case match_len r prev [] of None \<Rightarrow> [] | Some n \<Rightarrow> repl)"
| "sub_from r repl prev (x # xs) =
     (case match_len r prev (x # xs) of
        None \<Rightarrow> x # sub_from r repl (Some x) xs
      | Some n \<Rightarrow>
          if n = 0 then repl @ x # sub_from r repl (Some x) xs
          else repl @ sub_from r repl (Some (last (take n (x # xs)))) (drop (n - 1) xs))"

definition re_sub :: "regex \<Rightarrow> ustring \<Rightarrow> ustring \<Rightarrow> ustring" where
  "re_sub r repl text = sub_from r repl None text"

text \<open>\<^verbatim>\<open>text.split('\n')\<close> and \<^verbatim>\<open>text.strip()\<close>.\<close>

fun split_lines :: "ustring \<Rightarrow> ustring list" where
  "split_lines [] = [[]]"
| "split_lines (x # xs) =
     (if x = 10 then [] # split_lines xs
      else case split_lines xs of l # ls \<Rightarrow> (x # l) # ls | [] \<Rightarrow> [[x]])"

definition strip :: "ustring \<Rightarrow> ustring" where
  "strip s = rev (dropWhile py_isspace (rev (dropWhile py_isspace s)))"

section \<open>The text normalizer (ingestion/text\_cleaner.py)\<close>

definition patterns_to_remove :: "regex list" where
  "patterns_to_remove = [[Chr 0], [Chr 12], [Chr 13]]"

definition patterns_to_replace :: "(regex \<times> ustring) list" where
  "patterns_to_replace =
     [([Plus (\<lambda>c. c = 32 \<or> c = 9)], [32]),
      ([Cls (\<lambda>c. c = 10) 3 None], [10, 10]),
      ([Cls (\<lambda>c. c = 46) 4 None], [46, 46, 46]),
      ([Cls (\<lambda>c. c = 45) 3 None], [45, 45, 45])]"

definition remove_special_chars :: "ustring \<Rightarrow> ustring" where
  "remove_special_chars text = fold (\<lambda>pattern t. re_sub pattern [] t) patterns_to_remove text"

definition normalize_whitespace :: "ustring \<Rightarrow> ustring" where
  "normalize_whitespace text =
     join [10]
       (map strip
          (split_lines
             (fold (\<lambda>(pattern, replacement) t. re_sub pattern replacement t)
                patterns_to_replace text)))"

text \<open>
  The two OCR repairs: U+0E4D U+0E32 becomes U+0E33 (sara am), and a doubled U+0E40
  becomes U+0E41.
\<close>

definition ocr_fixes :: "(regex \<times> ustring) list" where
  "ocr_fixes = [([Chr 3661, Chr 3634], [3635]), ([Chr 3648, Chr 3648], [3649])]"

definition fix_common_ocr_errors :: "ustring \<Rightarrow> ustring" where
  "fix_common_ocr_errors text = fold (\<lambda>(wrong, correct) t. re_sub wrong correct t) ocr_fixes text"

text \<open>
  \<^verbatim>\<open>^\d{1,3}\s*$\<close>, then \<^verbatim>\<open>^\s*<page-word>\s*\d+\s*$\<close> with the Thai word for page
  (U+0E2B U+0E19 U+0E49 U+0E32), then \<^verbatim>\<open>^\s*Page\s*\d+\s*$\<close> ignoring case.
\<close>

definition page_number_patterns :: "regex list" where
  "page_number_patterns =
     [[Bol, Cls py_isdecimal 1 (Some 3), Star py_isspace, Eol],
      [Bol, Star py_isspace, Chr 3627, Chr 3609, Chr 3657, Chr 3634, Star py_isspace,
       Plus py_isdecimal, Star py_isspace, Eol],
      [Bol, Star py_isspace,
       Cls (\<lambda>c. c = 80 \<or> c = 112) 1 (Some 1), Cls (\<lambda>c. c = 65 \<or> c = 97) 1 (Some 1),
       Cls (\<lambda>c. c = 71 \<or> c = 103) 1 (Some 1), Cls (\<lambda>c. c = 69 \<or> c = 101) 1 (Some 1),
       Star py_isspace, Plus py_isdecimal, Star py_isspace, Eol]]"

definition remove_page_numbers :: "ustring \<Rightarrow> ustring" where
  "remove_page_numbers text = fold (\<lambda>pattern t. re_sub pattern [] t) page_number_patterns text"

text \<open>\<^verbatim>\<open>^\s*-\s*\d+\s*-\s*$\<close> and \<^verbatim>\<open>^\s*\[\s*\d+\s*\]\s*$\<close>.\<close>

definition footer_patterns :: "regex list" where
  "footer_patterns =
     [[Bol, Star py_isspace, Chr 45, Star py_isspace, Plus py_isdecimal, Star py_isspace,
       Chr 45, Star py_isspace, Eol],
      [Bol, Star py_isspace, Chr 91, Star py_isspace, Plus py_isdecimal, Star py_isspace,
       Chr 93, Star py_isspace, Eol]]"

definition remove_headers_footers :: "ustring \<Rightarrow> ustring" where
  "remove_headers_footers text = fold (\<lambda>pattern t. re_sub pattern [] t) footer_patterns text"

text \<open>\<^verbatim>\<open>clean(text, remove_page_numbers, fix_ocr)\<close>; both flags default to true.\<close>

definition clean_with :: "ustring \<Rightarrow> bool \<Rightarrow> bool \<Rightarrow> ustring" where
  "clean_with text remove_page_numbers_flag fix_ocr =
     (if text = [] then []
      else
        let t1 = remove_special_chars text;
            t2 = (if fix_ocr then fix_common_ocr_errors t1 else t1);
            t3 = (if remove_page_numbers_flag
                  then remove_headers_footers (remove_page_numbers t2) else t2);
            t4 = normalize_whitespace t3
        in strip t4)"

definition clean :: "ustring \<Rightarrow> ustring" where
  "clean text = clean_with text True True"

section \<open>Chunk cleaning and ingestion (ingestion/file\_loader.py, app/engine.py)\<close>

text \<open>Assignment to a dictionary key: an existing key keeps its place, a new one is added.\<close>

fun dict_set :: "ustring \<Rightarrow> pyval \<Rightarrow> (ustring \<times> pyval) list \<Rightarrow> (ustring \<times> pyval) list" where
  "dict_set k v [] = [(k, v)]"
| "dict_set k v ((k', v') # d) = (if k' = k then (k, v) # d else (k', v') # dict_set k v d)"

fun add_metadata_from :: "nat \<Rightarrow> document list \<Rightarrow> ustring \<Rightarrow> document list" where
  "add_metadata_from i [] source_name = []"
| "add_metadata_from i (chunk # chunks) source_name =
     (let m1 = dict_set (ascii ''source'') (VStr source_name) (metadata chunk);
          m2 = dict_set (ascii ''chunk_index'') (VInt (int i)) m1;
          m3 = (if map_of m2 (ascii ''page'') = None then dict_set (ascii ''page'') (VInt 1) m2
                else m2)
      in chunk\<lparr>metadata := m3\<rparr> # add_metadata_from (Suc i) chunks source_name)"

definition add_metadata :: "document list \<Rightarrow> ustring \<Rightarrow> document list" where
  "add_metadata chunks source_name = add_metadata_from 0 chunks source_name"

fun clean_chunks :: "document list \<Rightarrow> document list" where
  "clean_chunks [] = []"
| "clean_chunks (chunk # chunks) =
     (let cleaned_content = clean (page_content chunk)
      in if strip cleaned_content \<noteq> []
         then chunk\<lparr>page_content := cleaned_content\<rparr> # clean_chunks chunks
         else clean_chunks chunks)"

text \<open>
  What the file loader takes from outside the repository: \<^verbatim>\<open>pathlib\<close> (suffix in lower
  case, file name), the copy into managed storage, the format-specific loaders and the
  text splitter.  Each of the last three may raise.
\<close>

record files =
  suffix_lower :: "ustring \<Rightarrow> ustring"
  file_name :: "ustring \<Rightarrow> ustring"
  copy_to_storage :: "ustring \<Rightarrow> exn + ustring"
  loader_load :: "ustring \<Rightarrow> exn + document list"
  split_documents :: "document list \<Rightarrow> exn + document list"

definition SUPPORTED_EXTENSIONS :: "ustring list" where
  "SUPPORTED_EXTENSIONS = [ascii ''.pdf'', ascii ''.txt'', ascii ''.docx'']"

definition is_supported :: "files \<Rightarrow> ustring \<Rightarrow> bool" where
  "is_supported F file_path \<longleftrightarrow> suffix_lower F file_path \<in> set SUPPORTED_EXTENSIONS"

text \<open>The message of the \<^verbatim>\<open>ValueError\<close> for an extension without a loader, as code points.\<close>

definition unsupported_type_message :: "ustring \<Rightarrow> ustring" where
  "unsupported_type_message ext =
     [3652, 3617, 3656, 3619, 3629, 3591, 3619, 3633, 3610, 3652, 3615, 3621, 3660, 3611, 3619,
      3632, 3648, 3616, 3607, 58, 32] @ ext"

definition load_document :: "files \<Rightarrow> ustring \<Rightarrow> exn + document list" where
  "load_document F file_path =
     (let ext = suffix_lower F file_path
      in if ext = ascii ''.pdf'' \<or> ext = ascii ''.txt'' \<or> ext = ascii ''.docx''
         then loader_load F file_path
         else Inl (Exception (unsupported_type_message ext)))"

definition load_and_split :: "files \<Rightarrow> ustring \<Rightarrow> bool \<Rightarrow> exn + document list" where
  "load_and_split F file_path do_clean =
     (case load_document F file_path of
        Inl e \<Rightarrow> Inl e
      | Inr documents \<Rightarrow>
          (case split_documents F documents of
             Inl e \<Rightarrow> Inl e
           | Inr chunks \<Rightarrow>
               (let chunks' = add_metadata chunks (file_name F file_path)
                in Inr (if do_clean then clean_chunks chunks' else chunks'))))"

text \<open>
  The dictionary that \<^verbatim>\<open>process_file\<close> returns has one of two shapes: a failure with
  its \<^verbatim>\<open>error\<close> text and no chunks, or a success with \<^verbatim>\<open>file_name\<close>, \<^verbatim>\<open>saved_path\<close> and
  \<^verbatim>\<open>chunks\<close> (\<^verbatim>\<open>num_chunks\<close> is their number).
\<close>

datatype process_result =
    ProcessFailed ustring
  | Processed ustring ustring "document list"

text \<open>The message for an unsupported file type, as code points.\<close>

definition unsupported_file_message :: ustring where
  "unsupported_file_message =
     [3652, 3617, 3656, 3619, 3629, 3591, 3619, 3633, 3610, 3652, 3615, 3621, 3660, 3611, 3619,
      3632, 3648, 3616, 3607, 3609, 3637, 3657]"

definition process_file :: "files \<Rightarrow> ustring \<Rightarrow> process_result" where
  "process_file F file_path =
     (if \<not> is_supported F file_path then ProcessFailed unsupported_file_message
      else case copy_to_storage F file_path of
             Inl e \<Rightarrow> ProcessFailed (str_exn e)
           | Inr saved_path \<Rightarrow>
               (case load_and_split F saved_path True of
                  Inl e \<Rightarrow> ProcessFailed (str_exn e)
                | Inr chunks \<Rightarrow> Processed (file_name F saved_path) saved_path chunks))"

text \<open>
  \<^verbatim>\<open>ingest_file\<close> returns the loader's failure unchanged, or its own summary (file name,
  number of chunks added, new total), or the text of an exception.
\<close>

datatype ingest_result =
    IngestRejected ustring
  | Ingested ustring nat nat
  | IngestError ustring

definition ingest_file :: "files \<Rightarrow> world \<Rightarrow> ustring \<Rightarrow> ingest_result \<times> world" where
  "ingest_file F w file_path =
     (case process_file F file_path of
        ProcessFailed msg \<Rightarrow> (IngestRejected msg, w)
      | Processed name saved_path chunks \<Rightarrow>
          (case add_documents w chunks of
             (Inl e, w1) \<Rightarrow> (IngestError (str_exn e), w1)
           | (Inr num_added, w1) \<Rightarrow>
               (case get_document_count w1 of
                  (Inl e, w2) \<Rightarrow> (IngestError (str_exn e), w2)
                | (Inr total_documents, w2) \<Rightarrow> (Ingested name num_added total_documents, w2))))"

section \<open>The answer orchestrator (app/engine.py)\<close>

text \<open>
  The module \<^verbatim>\<open>llm/prompt_templates.py\<close> and the prompt class of the chain library are used
  by the engine but are not among the sources, so the engine takes them as a parameter:
  the three fixed texts, the rendering of the low-relevance text with a question, the
  template selection by mode, the construction of a prompt from a template and the
  disclaimer suffix.  Whatever is a call may raise.
\<close>

record prompts =
  NO_CONTEXT_PROMPT :: ustring
  LEGAL_SUMMARY_PROMPT :: ustring
  low_relevance_format :: "ustring \<Rightarrow> exn + ustring"
  get_prompt_template :: "ustring \<Rightarrow> exn + ustring"
  from_template :: "ustring \<Rightarrow> exn + ustring"
  format_response_with_disclaimer :: "ustring \<Rightarrow> exn + ustring"

text \<open>
  One invocation of the chain: the outcome is that of the world's language model at the
  number of invocations made so far.
\<close>

definition invocations :: "event list \<Rightarrow> nat" where
  "invocations tr = length (filter (\<lambda>e. case e of LlmInvoke t vs \<Rightarrow> True | _ \<Rightarrow> False) tr)"

definition chain_invoke ::
  "world \<Rightarrow> ustring \<Rightarrow> (ustring \<times> ustring) list \<Rightarrow> (exn + ustring) \<times> world" where
  "chain_invoke w prompt vars =
     (llm w (invocations (trace w)) prompt vars, log (LlmInvoke prompt vars) w)"

definition sleep :: "nat \<Rightarrow> world \<Rightarrow> world" where
  "sleep seconds w = log (Sleep seconds) w"

text \<open>
  The retry loop of \<^verbatim>\<open>chat\<close>, \<^verbatim>\<open>for attempt in range(max_retries)\<close>: a successful invocation
  leaves the loop with the response; a failed one pauses three seconds and goes on, and
  the last one raises again.  A loop that ends without a response leaves \<^verbatim>\<open>None\<close>.
\<close>

function invoke_with_retry ::
  "nat \<Rightarrow> nat \<Rightarrow> world \<Rightarrow> ustring \<Rightarrow> (ustring \<times> ustring) list
     \<Rightarrow> (exn + ustring option) \<times> world" where
  "invoke_with_retry max_retries attempt w prompt vars =
     (if attempt < max_retries then
        (case chain_invoke w prompt vars of
           (Inr response, w') \<Rightarrow> (Inr (Some response), w')
         | (Inl e, w') \<Rightarrow>
             if attempt < max_retries - 1
             then invoke_with_retry max_retries (Suc attempt) (sleep 3 w') prompt vars
             else (Inl e, w'))
      else (Inr None, w))"
  by pat_completeness auto
termination
  by (relation "measure (\<lambda>(max_retries, attempt, w, prompt, vars). max_retries - attempt)") auto

declare invoke_with_retry.simps [simp del]

text \<open>The dictionary that \<^verbatim>\<open>chat\<close> returns; a key that is absent is \<open>None\<close>.\<close>

record chat_result =
  success :: bool
  answer :: ustring
  sources :: "(pyval \<times> pyval) list"
  has_context :: "bool option"
  num_sources :: "nat option"
  error :: "ustring option"

text \<open>The prefix of every error text of the engine (a cross mark and a Thai phrase).\<close>

definition error_prefix :: ustring where
  "error_prefix =
     [10060, 32, 3648, 3585, 3636, 3604, 3586, 3657, 3629, 3612, 3636, 3604, 3614, 3621, 3634,
      3604, 58, 32]"

definition no_len_message :: ustring where
  "no_len_message =
     ascii ''object of type '' @ [39] @ ascii ''NoneType'' @ [39] @ ascii '' has no len()''"

definition citation :: "document \<Rightarrow> pyval \<times> pyval" where
  "citation doc =
     (dict_get (metadata doc) (ascii ''source'') (VStr (ascii ''unknown'')),
      dict_get (metadata doc) (ascii ''page'') (VStr (ascii ''?'')))"

text \<open>The body of the \<^verbatim>\<open>try\<close> block of \<^verbatim>\<open>chat\<close>.\<close>

definition chat_body ::
  "prompts \<Rightarrow> world \<Rightarrow> ustring \<Rightarrow> ustring \<Rightarrow> (exn + chat_result) \<times> world" where
  "chat_body P w question prompt_type =
     (case has_documents w of
        (Inl e, w1) \<Rightarrow> (Inl e, w1)
      | (Inr has, w1) \<Rightarrow>
          if \<not> has then
            (Inr \<lparr>success = False, answer = NO_CONTEXT_PROMPT P, sources = [],
                  has_context = Some False, num_sources = None, error = None\<rparr>, w1)
          else
            (case retrieve w1 question (Some NUM_RELEVANT_DOCS) of
               (Inl e, w2) \<Rightarrow> (Inl e, w2)
             | (Inr docs, w2) \<Rightarrow>
                 if docs = [] then
                   (case low_relevance_format P question of
                      Inl e \<Rightarrow> (Inl e, w2)
                    | Inr text \<Rightarrow>
                        (Inr \<lparr>success = False, answer = text, sources = [],
                              has_context = Some False, num_sources = None, error = None\<rparr>, w2))
                 else
                   (let context = format_context docs;
                        srcs = map citation docs
                    in case get_prompt_template P prompt_type of
                         Inl e \<Rightarrow> (Inl e, w2)
                       | Inr prompt_template \<Rightarrow>
                           (case from_template P prompt_template of
                              Inl e \<Rightarrow> (Inl e, w2)
                            | Inr prompt \<Rightarrow>
                                (case invoke_with_retry 3 0 w2 prompt
                                        [(ascii ''context'', context),
                                         (ascii ''question'', question)] of
                                   (Inl e, w3) \<Rightarrow> (Inl e, w3)
                                 | (Inr None, w3) \<Rightarrow> (Inl (Exception no_len_message), w3)
                                 | (Inr (Some response), w3) \<Rightarrow>
                                     (case format_response_with_disclaimer P response of
                                        Inl e \<Rightarrow> (Inl e, w3)
                                      | Inr final_response \<Rightarrow>
                                          (Inr \<lparr>success = True, answer = final_response,
                                                sources = srcs, has_context = Some True,
                                                num_sources = Some (length srcs),
                                                error = None\<rparr>, w3)))))))"

text \<open>\<^verbatim>\<open>chat\<close>: the body, and the \<^verbatim>\<open>except\<close> clause that turns an exception into a result.\<close>

definition chat :: "prompts \<Rightarrow> world \<Rightarrow> ustring \<Rightarrow> ustring \<Rightarrow> chat_result \<times> world" where
  "chat P w question prompt_type =
     (case chat_body P w question prompt_type of
        (Inr result, w') \<Rightarrow> (result, w')
      | (Inl e, w') \<Rightarrow>
          (\<lparr>success = False, answer = error_prefix @ str_exn e, sources = [],
            has_context = None, num_sources = None, error = Some (str_exn e)\<rparr>, w'))"

text \<open>The dictionary that \<^verbatim>\<open>summarize\<close> returns.\<close>

record summary_result =
  s_success :: bool
  summary :: ustring
  s_sources :: "pyval list option"
  num_chunks_used :: "nat option"
  s_error :: "ustring option"

text \<open>The two fixed Thai queries and the text for an empty retrieval, as code points.\<close>

definition summary_query_prefix :: ustring where
  "summary_query_prefix =
     [3626, 3619, 3640, 3611, 3648, 3609, 3639, 3657, 3629, 3627, 3634, 3607, 3633, 3657, 3591,
      3627, 3617, 3604, 3586, 3629, 3591]"

definition summary_query :: "ustring option \<Rightarrow> ustring" where
  "summary_query source_name =
     (case source_name of
        None \<Rightarrow> summary_query_prefix @ [3648, 3629, 3585, 3626, 3634, 3619]
      | Some n \<Rightarrow>
          if n = [] then summary_query_prefix @ [3648, 3629, 3585, 3626, 3634, 3619]
          else summary_query_prefix @ [32] @ n)"

definition nothing_to_summarize :: ustring where
  "nothing_to_summarize =
     [9888, 65039, 32, 3652, 3617, 3656, 3614, 3610, 3648, 3629, 3585, 3626, 3634, 3619, 3607,
      3637, 3656, 3592, 3632, 3626, 3619, 3640, 3611]"

text \<open>\<^verbatim>\<open>list(set(source of each doc))\<close>, in the iteration order of that set.\<close>

definition summary_sources :: "world \<Rightarrow> document list \<Rightarrow> pyval list" where
  "summary_sources w docs =
     list_of_set w
       (map (\<lambda>doc. dict_get (metadata doc) (ascii ''source'') (VStr (ascii ''unknown''))) docs)"

definition summarize_body ::
  "prompts \<Rightarrow> world \<Rightarrow> ustring option \<Rightarrow> (exn + summary_result) \<times> world" where
  "summarize_body P w source_name =
     (case retrieve w (summary_query source_name) (Some 10) of
        (Inl e, w1) \<Rightarrow> (Inl e, w1)
      | (Inr docs, w1) \<Rightarrow>
          if docs = [] then
            (Inr \<lparr>s_success = False, summary = nothing_to_summarize, s_sources = Some [],
                  num_chunks_used = None, s_error = None\<rparr>, w1)
          else
            (let context = format_context docs
             in case from_template P (LEGAL_SUMMARY_PROMPT P) of
                  Inl e \<Rightarrow> (Inl e, w1)
                | Inr prompt \<Rightarrow>
                    (case chain_invoke w1 prompt [(ascii ''context'', context)] of
                       (Inl e, w2) \<Rightarrow> (Inl e, w2)
                     | (Inr text, w2) \<Rightarrow>
                         (Inr \<lparr>s_success = True, summary = text,
                               s_sources = Some (summary_sources w2 docs),
                               num_chunks_used = Some (length docs), s_error = None\<rparr>, w2))))"

definition summarize :: "prompts \<Rightarrow> world \<Rightarrow> ustring option \<Rightarrow> summary_result \<times> world" where
  "summarize P w source_name =
     (case summarize_body P w source_name of
        (Inr result, w') \<Rightarrow> (result, w')
      | (Inl e, w') \<Rightarrow>
          (\<lparr>s_success = False, summary = error_prefix @ str_exn e, s_sources = None,
            num_chunks_used = None, s_error = Some (str_exn e)\<rparr>, w'))"

section \<open>Predicates and sample inputs used in the statements\<close>

text \<open>A stored chunk belongs to source \<open>s\<close>: its \<^verbatim>\<open>source\<close> metadata is exactly that string.\<close>

definition source_is :: "ustring \<Rightarrow> nat \<times> document \<Rightarrow> bool" where
  "source_is s e \<longleftrightarrow> map_of (metadata (snd e)) (ascii ''source'') = Some (VStr s)"

text \<open>The source that a citation or a summary names for a chunk.\<close>

definition src_of :: "document \<Rightarrow> pyval" where
  "src_of doc = dict_get (metadata doc) (ascii ''source'') (VStr (ascii ''unknown''))"

text \<open>A text with at least one character that is not whitespace.\<close>

definition has_text :: "ustring \<Rightarrow> bool" where
  "has_text s \<longleftrightarrow> (\<exists>x \<in> set s. \<not> py_isspace x)"

text \<open>All chunks handed to the index by the add calls of a trace.\<close>

definition added_docs :: "event list \<Rightarrow> document list" where
  "added_docs tr = concat (map (\<lambda>e. case e of DbAdd docs \<Rightarrow> docs | _ \<Rightarrow> []) tr)"

text \<open>
  A healthy index that holds the given chunks, ranked by the given distances, with a
  language model that refuses every call; variations of it with a failing backend, and
  with a language model that answers.
\<close>

definition demo_world :: "(document \<times> real) list \<Rightarrow> world" where
  "demo_world ranked =
     \<lparr>entries = zip [0 ..< length ranked] (map fst ranked), next_id = length ranked, trace = [],
      fault = (\<lambda>_. None), nearest = (\<lambda>q k. take (nat k) ranked),
      llm = (\<lambda>n t vs. Inl (Exception (ascii ''refused #'' @ str_nat n))),
      set_order = (\<lambda>vs v. sum_list (str_val v))\<rparr>"

definition broken :: "world \<Rightarrow> world" where
  "broken w = w\<lparr>fault := (\<lambda>_. Some (Exception (ascii ''backend down'')))\<rparr>"

definition answering :: "world \<Rightarrow> world" where
  "answering w = w\<lparr>llm := (\<lambda>n t vs. Inr (ascii ''two contracts''))\<rparr>"

definition chunk :: "string \<Rightarrow> int \<Rightarrow> string \<Rightarrow> document" where
  "chunk src pg txt =
     \<lparr>page_content = ascii txt,
      metadata = [(ascii ''source'', VStr (ascii src)), (ascii ''page'', VInt pg)]\<rparr>"

definition raw_chunk :: "ustring \<Rightarrow> document" where
  "raw_chunk txt = \<lparr>page_content = txt, metadata = []\<rparr>"

definition footer_text :: ustring where
  "footer_text = ascii ''- 3 -'' @ [10, 10]"

definition section_text :: ustring where
  "section_text = ascii ''Sec. 1'' @ [9, 32] @ ascii ''Text''"

definition three_chunks :: world where
  "three_chunks =
     demo_world [(chunk ''doc.pdf'' 1 ''one'', 0.25), (chunk ''Doc.pdf'' 1 ''two'', 0.5),
                 (chunk ''doc.pdf'' 2 ''three'', 0.75)]"

definition demo_prompts :: prompts where
  "demo_prompts =
     \<lparr>NO_CONTEXT_PROMPT = ascii ''no documents'',
      LEGAL_SUMMARY_PROMPT = ascii ''summarize: {context}'',
      low_relevance_format = (\<lambda>q. Inr (ascii ''nothing relevant for '' @ q)),
      get_prompt_template = (\<lambda>t. Inr (ascii ''{context} {question}'')),
      from_template = (\<lambda>t. Inr t),
      format_response_with_disclaimer = (\<lambda>r. Inr (r @ ascii '' (not legal advice)''))\<rparr>"

definition demo_files :: "document list \<Rightarrow> files" where
  "demo_files chunks =
     \<lparr>suffix_lower = (\<lambda>p. ascii ''.txt''), file_name = (\<lambda>p. ascii ''law.txt''),
      copy_to_storage = (\<lambda>p. Inr (ascii ''data/law.txt'')),
      loader_load = (\<lambda>p. Inr [\<lparr>page_content = concat (map page_content chunks), metadata = []\<rparr>]),
      split_documents = (\<lambda>docs. Inr chunks)\<rparr>"

section \<open>Auxiliary facts\<close>

lemmas adapter_defs = add_documents_def similarity_search_def similarity_search_with_score_def
  get_document_count_def get_all_sources_def delete_by_source_def
  db_add_documents_def db_similarity_search_def db_similarity_search_with_score_def
  collection_count_def collection_get_all_def collection_get_where_def collection_delete_def
  log_def

lemma py_isdecimal_low: "c < 1632 \<Longrightarrow> py_isdecimal c \<longleftrightarrow> 48 \<le> c \<and> c \<le> 57"
  by (auto simp: py_isdecimal_def decimal_blocks_def)

lemmas eval_defs = re_sub_def Chr_def Star_def Plus_def ascii_def run_def prev_after_def
  clean_def clean_with_def remove_special_chars_def patterns_to_remove_def
  fix_common_ocr_errors_def ocr_fixes_def remove_page_numbers_def page_number_patterns_def
  remove_headers_footers_def footer_patterns_def normalize_whitespace_def patterns_to_replace_def
  strip_def py_isspace_def py_isdecimal_low Let_def

lemma str_nat_digits:
  "str_nat 1 = [49]" "str_nat (Suc 0) = [49]" "str_nat 2 = [50]" "str_nat (Suc (Suc 0)) = [50]"
  by (simp_all add: str_nat.simps)

lemma count_list_rule: "count_list (replicate n x) x = n"
  by (induction n) auto

lemma relevant_docs_filter:
  "relevant_docs t rs = map fst (filter (\<lambda>(d, s). s < 2 - t) rs)"
  by (induction rs) auto

lemma invocations_append: "invocations (tr @ tr') = invocations tr + invocations tr'"
  by (simp add: invocations_def)

lemma invocations_simps:
  "invocations [] = 0"
  "invocations (LlmInvoke p v # tr) = Suc (invocations tr)"
  "invocations (Sleep n # tr) = invocations tr"
  "invocations (DbCount # tr) = invocations tr"
  "invocations (DbSearch q k # tr) = invocations tr"
  by (simp_all add: invocations_def)

lemma int_or_default: "int_or (Some (int_or k NUM_RELEVANT_DOCS)) NUM_RELEVANT_DOCS
    = int_or k NUM_RELEVANT_DOCS"
  by (simp add: int_or_def NUM_RELEVANT_DOCS_def split: option.splits)

text \<open>What \<^verbatim>\<open>retrieve\<close> does, in one equation: a count, then the search.\<close>

lemma retrieve_eq:
  "retrieve w q k
   = (case fault w OpSearch of
        None \<Rightarrow> Inr (map fst (nearest w q (int_or k NUM_RELEVANT_DOCS)))
      | Some e \<Rightarrow> Inr [],
      w\<lparr>trace := trace w @ [DbCount, DbSearch q (int_or k NUM_RELEVANT_DOCS)]\<rparr>)"
  by (simp add: retrieve_def similarity_search_def get_document_count_def collection_count_def
      db_similarity_search_def int_or_default log_def split: option.splits)

lemma retrieve_with_scores_eq:
  "retrieve_with_scores w q k
   = (case fault w OpSearch of
        None \<Rightarrow> Inr (nearest w q (int_or k NUM_RELEVANT_DOCS))
      | Some e \<Rightarrow> Inr [],
      w\<lparr>trace := trace w @ [DbSearchScore q (int_or k NUM_RELEVANT_DOCS)]\<rparr>)"
  by (simp add: retrieve_with_scores_def similarity_search_with_score_def
      db_similarity_search_with_score_def int_or_default log_def split: option.splits)

lemma set_list_of_set: "set (list_of_set w vs) = set vs"
  by (simp add: list_of_set_def)

lemma distinct_list_of_set: "distinct (list_of_set w vs)"
  by (simp add: list_of_set_def)

lemma strip_nonempty_iff: "strip s \<noteq> [] \<longleftrightarrow> has_text s"
  unfolding has_text_def
proof
  assume "strip s \<noteq> []"
  then have "dropWhile py_isspace s \<noteq> []"
    by (auto simp: strip_def dest: set_dropWhileD)
  then show "\<exists>x \<in> set s. \<not> py_isspace x"
    by (simp add: dropWhile_eq_Nil_conv)
next
  assume "\<exists>x \<in> set s. \<not> py_isspace x"
  then have ne: "dropWhile py_isspace s \<noteq> []"
    by (auto simp: dropWhile_eq_Nil_conv)
  then have "\<not> py_isspace (hd (dropWhile py_isspace s))"
    by (rule hd_dropWhile)
  with ne have "\<exists>x \<in> set (rev (dropWhile py_isspace s)). \<not> py_isspace x"
    by (metis hd_in_set set_rev)
  then have "dropWhile py_isspace (rev (dropWhile py_isspace s)) \<noteq> []"
    by (auto simp: dropWhile_eq_Nil_conv)
  then show "strip s \<noteq> []"
    by (simp add: strip_def)
qed

lemma clean_chunks_filter:
  "clean_chunks chunks
   = map (\<lambda>c. c\<lparr>page_content := clean (page_content c)\<rparr>)
       (filter (\<lambda>c. has_text (clean (page_content c))) chunks)"
  by (induction chunks) (auto simp: Let_def strip_nonempty_iff)

lemma process_file_chunks:
  "process_file F path = Processed name saved chunks \<Longrightarrow> \<exists>cs. chunks = clean_chunks cs"
  by (auto simp: process_file_def load_and_split_def Let_def split: if_splits sum.splits)

lemma ingest_file_added:
  "\<exists>cs. added_docs (drop (length (trace w)) (trace (snd (ingest_file F w path)))) = clean_chunks cs"
proof (cases "process_file F path")
  case (ProcessFailed msg)
  then have "added_docs (drop (length (trace w)) (trace (snd (ingest_file F w path))))
             = clean_chunks []"
    by (simp add: ingest_file_def added_docs_def)
  then show ?thesis ..
next
  case (Processed name saved chunks)
  then obtain cs where cs: "chunks = clean_chunks cs"
    using process_file_chunks by blast
  from Processed
  have "added_docs (drop (length (trace w)) (trace (snd (ingest_file F w path)))) = chunks"
    by (auto simp: ingest_file_def added_docs_def adapter_defs split: option.splits)
  with cs show ?thesis by blast
qed

lemma delete_by_source_entries:
  assumes "fault w OpGet = None" "fault w OpDelete = None" "distinct (map fst (entries w))"
  shows "entries (snd (delete_by_source w s)) = filter (\<lambda>e. \<not> source_is s e) (entries w)"
proof -
  let ?ids = "map fst (filter (source_is s) (entries w))"
  have "filter (\<lambda>(i, d). i \<notin> set ?ids) (entries w) = filter (\<lambda>e. \<not> source_is s e) (entries w)"
  proof (rule filter_cong [OF refl])
    fix e assume e: "e \<in> set (entries w)"
    have "fst e \<in> set ?ids \<longleftrightarrow> source_is s e"
    proof
      assume "fst e \<in> set ?ids"
      then obtain e' where e': "e' \<in> set (entries w)" "source_is s e'" "fst e' = fst e"
        by auto
      from assms(3) e e' have "e' = e"
        by (metis eq_key_imp_eq_value prod.collapse)
      with e' show "source_is s e" by simp
    next
      assume "source_is s e"
      with e show "fst e \<in> set ?ids" by auto
    qed
    then show "(case e of (i, d) \<Rightarrow> i \<notin> set ?ids) = (\<not> source_is s e)"
      by (cases e) auto
  qed
  moreover have "(\<lambda>(i, d). map_of (metadata d) (ascii ''source'') = Some (VStr s)) = source_is s"
    by (auto simp: source_is_def fun_eq_iff)
  ultimately show ?thesis
    using assms(1,2) by (auto simp: adapter_defs filter_empty_conv split: option.splits)
qed

lemma retry_exhausted:
  assumes "\<And>n. llm w n prompt vars = Inl (err n)"
  shows "invoke_with_retry 3 0 w prompt vars
         = (Inl (err (invocations (trace w) + 2)),
            w\<lparr>trace := trace w @ [LlmInvoke prompt vars, Sleep 3, LlmInvoke prompt vars, Sleep 3,
                                  LlmInvoke prompt vars]\<rparr>)"
  by (simp add: invoke_with_retry.simps [of 3] chain_invoke_def sleep_def log_def assms
      invocations_append invocations_simps)

lemma clean_footer_only: "clean footer_text = []"
  by (simp add: footer_text_def eval_defs)

lemma clean_section: "clean section_text = ascii ''Sec. 1 Text''"
  by (simp add: section_text_def eval_defs)

lemma upt_three: "[0..<3] = [0, 1, 2]"
  by code_simp

section \<open>The retriever\<close>

text \<open>
  Claim C1.  \<^verbatim>\<open>retrieve_relevant\<close> should keep a chunk exactly when its distance is below
  \<open>2 - similarity_threshold\<close>, so that threshold 0.0 keeps every distance below 2.0 and a
  higher threshold never keeps more.  The code evaluates \<^verbatim>\<open>threshold or self.threshold\<close>,
  which replaces an explicit 0.0 by the configured 0.3: with threshold 0.0 a chunk at
  distance 1.75 (below 2.0) is dropped, and raising the threshold to 0.125 brings it back.
  The distances and thresholds used here are binary fractions, and 1.75 is far from the
  cut-off 1.7, so the statement does not depend on the rounding of floating-point
  subtraction, which the model leaves out.
\<close>

theorem retrieve_relevant_zero_threshold:
  "fst (retrieve_relevant (demo_world [(chunk ''a.pdf'' 1 ''x'', 1.75)]) (ascii ''q'') None (Some 0))
     = Inr []
   \<and> (1.75 :: real) < 2 - 0
   \<and> fst (retrieve_relevant (demo_world [(chunk ''a.pdf'' 1 ''x'', 1.75)]) (ascii ''q'') None
            (Some 0.125))
     = Inr [chunk ''a.pdf'' 1 ''x'']
   \<and> fst (retrieve_relevant (demo_world [(chunk ''a.pdf'' 1 ''x'', 0.5)]) (ascii ''q'') None (Some 1))
     = Inr [chunk ''a.pdf'' 1 ''x'']"
  by (simp add: retrieve_relevant_def retrieve_with_scores_def similarity_search_with_score_def
      db_similarity_search_with_score_def demo_world_def int_or_def float_or_def
      NUM_RELEVANT_DOCS_def RETRIEVAL_THRESHOLD_def log_def)

text \<open>
  Claim C3.  \<^verbatim>\<open>format_context\<close> should separate the blocks from each other by the
  50-character rule line.  In the code the rule line is concatenated once in front of the
  joined blocks, and the blocks are joined by two newlines only: for two chunks the
  output is newline, newline, rule, first block, newline, newline, second block.  The
  empty list gives the empty string, and the blocks keep the input order.
\<close>

theorem format_context_rule_line_once:
  "format_context [d1, d2]
     = [10, 10] @ rule_line @ context_part 1 d1 @ [10, 10] @ context_part 2 d2
   \<and> length rule_line = 50
   \<and> count_list (format_context [chunk ''a.pdf'' 1 ''A'', chunk ''a.pdf'' 2 ''B'']) 9472 = 50
   \<and> format_context [] = []"
  by (simp add: format_context_def numeral_2_eq_2 rule_line_def context_part_def chunk_def
      dict_get_def ascii_def str_nat_digits str_int_def count_list_rule)

text \<open>
  Claim C10.  The claim reads: with \<open>k = 0\<close>, \<^verbatim>\<open>retrieve\<close> and \<^verbatim>\<open>retrieve_with_scores\<close> do not
  return zero results, because the falsy \<open>k\<close> is replaced by the default 4.  The
  replacement is as claimed, but zero results are still possible: on an index without
  chunks the call with \<open>k = 0\<close> returns the empty list.
\<close>

theorem retrieve_zero_k_empty_index:
  "fst (retrieve (demo_world []) (ascii ''q'') (Some 0)) = Inr []
   \<and> fst (retrieve_with_scores (demo_world []) (ascii ''q'') (Some 0)) = Inr []"
  by (simp add: retrieve_eq retrieve_with_scores_eq demo_world_def)

text \<open>
  Claim C10, amended.  For every query, \<^verbatim>\<open>retrieve\<close> and \<^verbatim>\<open>retrieve_with_scores\<close> called with
  \<open>k = 0\<close> do exactly what they do with \<open>k\<close> absent: the index is asked for the default
  fan-out 4, never for 0 (for \<^verbatim>\<open>retrieve\<close> after the count that \<^verbatim>\<open>similarity_search\<close> makes), and
  the call returns what the index returns for fan-out 4, or the empty list when the search
  fails.  So zero chunks cannot be requested, though none may come back.
\<close>

theorem retrieve_zero_k_is_default:
  "retrieve w q (Some 0) = retrieve w q None
   \<and> trace (snd (retrieve w q (Some 0))) = trace w @ [DbCount, DbSearch q 4]
   \<and> fst (retrieve w q (Some 0))
       = (case fault w OpSearch of None \<Rightarrow> Inr (map fst (nearest w q 4)) | Some e \<Rightarrow> Inr [])
   \<and> retrieve_with_scores w q (Some 0) = retrieve_with_scores w q None
   \<and> trace (snd (retrieve_with_scores w q (Some 0))) = trace w @ [DbSearchScore q 4]
   \<and> fst (retrieve_with_scores w q (Some 0))
       = (case fault w OpSearch of None \<Rightarrow> Inr (nearest w q 4) | Some e \<Rightarrow> Inr [])"
  by (simp add: retrieve_eq retrieve_with_scores_eq int_or_def NUM_RELEVANT_DOCS_def
      split: option.splits)

theorem retrieve_zero_k_is_default_witness:
  "fault three_chunks OpSearch = None
   \<and> fst (retrieve three_chunks (ascii ''q'') (Some 0))
       = Inr [chunk ''doc.pdf'' 1 ''one'', chunk ''Doc.pdf'' 1 ''two'', chunk ''doc.pdf'' 2 ''three'']
   \<and> trace (snd (retrieve three_chunks (ascii ''q'') (Some 0)))
       = [DbCount, DbSearch (ascii ''q'') 4]
   \<and> fault (broken three_chunks) OpSearch \<noteq> None
   \<and> fst (retrieve (broken three_chunks) (ascii ''q'') (Some 0)) = Inr []"
proof -
  have f: "fault three_chunks OpSearch = None"
    by (simp add: three_chunks_def demo_world_def)
  have n: "map fst (nearest three_chunks (ascii ''q'') 4)
           = [chunk ''doc.pdf'' 1 ''one'', chunk ''Doc.pdf'' 1 ''two'', chunk ''doc.pdf'' 2 ''three'']"
    by (simp add: three_chunks_def demo_world_def)
  have t: "trace three_chunks = []"
    by (simp add: three_chunks_def demo_world_def)
  have b: "fault (broken three_chunks) OpSearch = Some (Exception (ascii ''backend down''))"
    by (simp add: broken_def)
  have 1: "fst (retrieve three_chunks (ascii ''q'') (Some 0))
       = Inr [chunk ''doc.pdf'' 1 ''one'', chunk ''Doc.pdf'' 1 ''two'', chunk ''doc.pdf'' 2 ''three'']"
    using retrieve_zero_k_is_default
      [of three_chunks "ascii ''q''", THEN conjunct2, THEN conjunct2, THEN conjunct1]
    by (simp add: f n)
  have 2: "trace (snd (retrieve three_chunks (ascii ''q'') (Some 0)))
       = [DbCount, DbSearch (ascii ''q'') 4]"
    using retrieve_zero_k_is_default [of three_chunks "ascii ''q''", THEN conjunct2, THEN conjunct1]
    by (simp add: t)
  have 3: "fst (retrieve (broken three_chunks) (ascii ''q'') (Some 0)) = Inr []"
    using retrieve_zero_k_is_default
      [of "broken three_chunks" "ascii ''q''", THEN conjunct2, THEN conjunct2, THEN conjunct1]
    by (simp add: b)
  from f b 1 2 3 show ?thesis
    by simp
qed

section \<open>The index adapter\<close>

text \<open>
  Claim C8.  The adapter never raises on add, query, count and list-sources: adding the
  empty list returns 0 and touches nothing, and a failing backend gives 0 for add, the
  empty list for query, 0 for count and the empty list for list-sources.
\<close>

theorem adapter_never_raises:
  "add_documents w [] = (Inr 0, w)
   \<and> (\<exists>n. fst (add_documents w docs) = Inr n)
   \<and> (fault w OpAdd \<noteq> None \<longrightarrow> fst (add_documents w docs) = Inr 0)
   \<and> (\<exists>ds. fst (similarity_search w q k) = Inr ds)
   \<and> (fault w OpSearch \<noteq> None \<longrightarrow> fst (similarity_search w q k) = Inr [])
   \<and> (\<exists>n. fst (get_document_count w) = Inr n)
   \<and> (fault w OpCount \<noteq> None \<longrightarrow> fst (get_document_count w) = Inr 0)
   \<and> (\<exists>ss. fst (get_all_sources w) = Inr ss)
   \<and> (fault w OpGet \<noteq> None \<longrightarrow> fst (get_all_sources w) = Inr [])"
  by (auto simp: adapter_defs split: option.splits)

theorem adapter_never_raises_witness:
  "fault (broken three_chunks) OpAdd \<noteq> None \<and> fault (broken three_chunks) OpSearch \<noteq> None
   \<and> fault (broken three_chunks) OpCount \<noteq> None \<and> fault (broken three_chunks) OpGet \<noteq> None
   \<and> fst (add_documents (broken three_chunks) [chunk ''a.pdf'' 1 ''x'']) = Inr 0
   \<and> fst (similarity_search (broken three_chunks) (ascii ''q'') None) = Inr []
   \<and> fst (get_document_count (broken three_chunks)) = Inr 0
   \<and> fst (get_all_sources (broken three_chunks)) = Inr []"
  using adapter_never_raises
    [of "broken three_chunks" "[chunk ''a.pdf'' 1 ''x'']" "ascii ''q''" None]
  by (simp add: broken_def)

text \<open>
  Claim C6.  \<^verbatim>\<open>delete_by_source\<close> never raises; a backend error is reported as false and
  deletes nothing; on a working backend it removes exactly the chunks whose source
  metadata is the given string (compared exactly), returns true iff there was one, and
  afterwards the source list does not contain the string and the count has dropped by the
  number of chunks that had that source.
\<close>

theorem delete_by_source_spec:
  "(\<exists>b. fst (delete_by_source w s) = Inr b)
   \<and> (fault w OpGet \<noteq> None \<or> fault w OpDelete \<noteq> None \<longrightarrow>
        fst (delete_by_source w s) = Inr False \<and> entries (snd (delete_by_source w s)) = entries w)
   \<and> (fault w OpGet = None \<and> fault w OpDelete = None \<and> fault w OpCount = None
        \<and> distinct (map fst (entries w)) \<longrightarrow>
        entries (snd (delete_by_source w s)) = filter (\<lambda>e. \<not> source_is s e) (entries w)
        \<and> fst (delete_by_source w s) = Inr (\<exists>e \<in> set (entries w). source_is s e)
        \<and> (\<exists>ss. fst (get_all_sources (snd (delete_by_source w s))) = Inr ss \<and> VStr s \<notin> set ss)
        \<and> fst (get_document_count (snd (delete_by_source w s)))
            = Inr (length (entries w) - length (filter (source_is s) (entries w))))"
proof (intro conjI impI)
  show "\<exists>b. fst (delete_by_source w s) = Inr b"
    by (auto simp: adapter_defs split: option.splits)
next
  assume "fault w OpGet \<noteq> None \<or> fault w OpDelete \<noteq> None"
  then show "fst (delete_by_source w s) = Inr False"
    by (auto simp: adapter_defs split: option.splits)
next
  assume "fault w OpGet \<noteq> None \<or> fault w OpDelete \<noteq> None"
  then show "entries (snd (delete_by_source w s)) = entries w"
    by (auto simp: adapter_defs split: option.splits)
next
  assume h: "fault w OpGet = None \<and> fault w OpDelete = None \<and> fault w OpCount = None
    \<and> distinct (map fst (entries w))"
  then show ent: "entries (snd (delete_by_source w s)) = filter (\<lambda>e. \<not> source_is s e) (entries w)"
    by (simp add: delete_by_source_entries)
  have fs: "(\<lambda>(i, d). map_of (metadata d) (ascii ''source'') = Some (VStr s)) = source_is s"
    by (auto simp: source_is_def fun_eq_iff)
  from h show "fst (delete_by_source w s) = Inr (\<exists>e \<in> set (entries w). source_is s e)"
    by (auto simp: adapter_defs fs filter_empty_conv split: option.splits)
  have flt: "fault (snd (delete_by_source w s)) = fault w"
    by (auto simp: adapter_defs split: option.splits)
  have "VStr s \<notin> set (sources_of (map (\<lambda>(i, d). metadata d)
                         (filter (\<lambda>e. \<not> source_is s e) (entries w))))"
    by (auto simp: sources_of_def List.map_filter_def source_is_def)
  with h show "\<exists>ss. fst (get_all_sources (snd (delete_by_source w s))) = Inr ss \<and> VStr s \<notin> set ss"
    by (simp add: get_all_sources_def collection_get_all_def flt ent set_list_of_set)
  have "length (filter (\<lambda>e. \<not> source_is s e) (entries w))
        = length (entries w) - length (filter (source_is s) (entries w))"
    using sum_length_filter_compl [of "source_is s" "entries w"] by simp
  with h show "fst (get_document_count (snd (delete_by_source w s)))
      = Inr (length (entries w) - length (filter (source_is s) (entries w)))"
    by (simp add: get_document_count_def collection_count_def flt ent)
qed

theorem delete_by_source_spec_witness:
  "fault three_chunks OpGet = None \<and> fault three_chunks OpDelete = None
   \<and> fault three_chunks OpCount = None
   \<and> distinct (map fst (entries three_chunks))
   \<and> length (entries three_chunks) = 3
   \<and> fst (delete_by_source three_chunks (ascii ''doc.pdf'')) = Inr True
   \<and> entries (snd (delete_by_source three_chunks (ascii ''doc.pdf'')))
       = [(1, chunk ''Doc.pdf'' 1 ''two'')]
   \<and> fst (get_document_count (snd (delete_by_source three_chunks (ascii ''doc.pdf'')))) = Inr 1
   \<and> fst (delete_by_source three_chunks (ascii ''doc'')) = Inr False
   \<and> fault (broken three_chunks) OpGet \<noteq> None
   \<and> fst (delete_by_source (broken three_chunks) (ascii ''doc.pdf'')) = Inr False
   \<and> entries (snd (delete_by_source (broken three_chunks) (ascii ''doc.pdf'')))
       = entries three_chunks"
  using delete_by_source_spec [of three_chunks "ascii ''doc.pdf''"]
    delete_by_source_spec [of three_chunks "ascii ''doc''"]
    delete_by_source_spec [of "broken three_chunks" "ascii ''doc.pdf''"]
  by (simp add: three_chunks_def demo_world_def broken_def chunk_def source_is_def ascii_def)


section \<open>Ingestion\<close>

text \<open>
  Claim C5.  A chunk whose cleaned content is empty or whitespace-only is dropped by
  \<^verbatim>\<open>clean_chunks\<close>, the chunks that remain carry their cleaned content, and every chunk that
  one \<^verbatim>\<open>ingest_file\<close> call hands to the index has content with a non-whitespace character.
\<close>

theorem empty_chunks_never_indexed:
  "clean_chunks chunks
     = map (\<lambda>c. c\<lparr>page_content := clean (page_content c)\<rparr>)
         (filter (\<lambda>c. has_text (clean (page_content c))) chunks)
   \<and> (\<forall>d \<in> set (clean_chunks chunks). has_text (page_content d))
   \<and> (\<forall>d \<in> set (added_docs (drop (length (trace w)) (trace (snd (ingest_file F w path))))).
         has_text (page_content d))"
proof (intro conjI)
  show "clean_chunks chunks
     = map (\<lambda>c. c\<lparr>page_content := clean (page_content c)\<rparr>)
         (filter (\<lambda>c. has_text (clean (page_content c))) chunks)"
    by (rule clean_chunks_filter)
  show all: "\<forall>d \<in> set (clean_chunks chunks). has_text (page_content d)" for chunks
    by (auto simp: clean_chunks_filter)
  from ingest_file_added [of w F path] all
  show "\<forall>d \<in> set (added_docs (drop (length (trace w)) (trace (snd (ingest_file F w path))))).
         has_text (page_content d)"
    by metis
qed

theorem empty_chunks_never_indexed_witness:
  "clean_chunks [raw_chunk footer_text,
                 raw_chunk section_text]
     = [raw_chunk (ascii ''Sec. 1 Text'')]
   \<and> has_text (ascii ''Sec. 1 Text'')
   \<and> added_docs (trace (snd (ingest_file
         (demo_files [raw_chunk footer_text,
                      raw_chunk section_text])
         (demo_world []) (ascii ''law.txt''))))
     = [\<lparr>page_content = ascii ''Sec. 1 Text'',
         metadata = [(ascii ''source'', VStr (ascii ''law.txt'')),
                     (ascii ''chunk_index'', VInt 1), (ascii ''page'', VInt 1)]\<rparr>]"
proof -
  let ?cs = "[raw_chunk footer_text,
              raw_chunk section_text]"
  have ht: "has_text (ascii ''Sec. 1 Text'')"
    by (simp add: has_text_def ascii_def py_isspace_def)
  have nt: "\<not> has_text []"
    by (simp add: has_text_def)
  have cc: "clean_chunks ?cs = [raw_chunk (ascii ''Sec. 1 Text'')]"
    using empty_chunks_never_indexed [of ?cs "demo_world []" "demo_files ?cs" "ascii ''law.txt''"]
    by (simp add: raw_chunk_def clean_footer_only clean_section ht nt)
  have src: "ascii ''source'' \<noteq> ascii ''chunk_index''" "ascii ''source'' \<noteq> ascii ''page''"
    "ascii ''chunk_index'' \<noteq> ascii ''page''"
    by (simp_all add: ascii_def)
  have md: "add_metadata ?cs (ascii ''law.txt'')
            = [\<lparr>page_content = footer_text,
                 metadata = [(ascii ''source'', VStr (ascii ''law.txt'')),
                     (ascii ''chunk_index'', VInt 0), (ascii ''page'', VInt 1)]\<rparr>,
               \<lparr>page_content = section_text,
                 metadata = [(ascii ''source'', VStr (ascii ''law.txt'')),
                     (ascii ''chunk_index'', VInt 1), (ascii ''page'', VInt 1)]\<rparr>]"
    using src by (simp add: add_metadata_def raw_chunk_def Let_def)
  have pf: "process_file (demo_files ?cs) (ascii ''law.txt'')
            = Processed (ascii ''law.txt'') (ascii ''data/law.txt'')
                [\<lparr>page_content = ascii ''Sec. 1 Text'',
                  metadata = [(ascii ''source'', VStr (ascii ''law.txt'')),
                     (ascii ''chunk_index'', VInt 1), (ascii ''page'', VInt 1)]\<rparr>]"
    unfolding process_file_def load_and_split_def load_document_def is_supported_def Let_def
    by (simp add: demo_files_def SUPPORTED_EXTENSIONS_def md clean_footer_only clean_section
        strip_nonempty_iff ht nt)
  have "added_docs (trace (snd (ingest_file (demo_files ?cs) (demo_world []) (ascii ''law.txt''))))
        = [\<lparr>page_content = ascii ''Sec. 1 Text'',
            metadata = [(ascii ''source'', VStr (ascii ''law.txt'')),
                     (ascii ''chunk_index'', VInt 1), (ascii ''page'', VInt 1)]\<rparr>]"
    by (simp add: ingest_file_def pf adapter_defs demo_world_def added_docs_def)
  with cc ht show ?thesis
    by simp
qed

section \<open>The answer orchestrator\<close>

text \<open>
  Claim C4.  On an index without documents \<^verbatim>\<open>chat\<close> returns the fixed no-context result
  (not successful, no context, no sources, the fixed message) whatever the question and
  the mode are: two calls with different questions give identical results.
\<close>

theorem chat_no_context:
  "entries w = [] \<Longrightarrow>
     fst (chat P w question prompt_type)
       = \<lparr>success = False, answer = NO_CONTEXT_PROMPT P, sources = [], has_context = Some False,
          num_sources = None, error = None\<rparr>
     \<and> chat P w question prompt_type = chat P w question' prompt_type'"
  by (simp add: chat_def chat_body_def has_documents_def get_document_count_def
      collection_count_def split: option.splits)

theorem chat_no_context_witness:
  "entries (demo_world []) = []
   \<and> fst (chat demo_prompts (demo_world []) (ascii ''What is a tort?'') (ascii ''qa''))
       = \<lparr>success = False, answer = ascii ''no documents'', sources = [],
          has_context = Some False, num_sources = None, error = None\<rparr>
   \<and> chat demo_prompts (demo_world []) (ascii ''What is a tort?'') (ascii ''qa'')
       = chat demo_prompts (demo_world []) (ascii ''Who signs?'') (ascii ''thai'')"
proof -
  have h: "entries (demo_world []) = []"
    by (simp add: demo_world_def)
  have n: "NO_CONTEXT_PROMPT demo_prompts = ascii ''no documents''"
    by (simp add: demo_prompts_def)
  from chat_no_context [OF h, of demo_prompts] h show ?thesis
    unfolding n by blast
qed

text \<open>
  Claim C7.  When documents are indexed, retrieval returns chunks, a prompt is built and
  every invocation of the language model fails, \<^verbatim>\<open>chat\<close> (after the count of
  \<^verbatim>\<open>has_documents\<close> and the count and search of the retrieval) invokes the model exactly three
  times with a pause of three seconds between consecutive attempts, and returns an error
  result: not successful, no sources, and the text of the third failure both as the
  \<^verbatim>\<open>error\<close> and, behind the fixed prefix, as the answer.
\<close>

theorem chat_retry_exhaustion:
  assumes "fault w OpCount = None" and "entries w \<noteq> []"
    and "fault w OpSearch = None" and "nearest w question NUM_RELEVANT_DOCS \<noteq> []"
    and "get_prompt_template P prompt_type = Inr template"
    and "from_template P template = Inr prompt"
    and "\<forall>n vars. llm w n prompt vars = Inl (err n)"
  shows "trace (snd (chat P w question prompt_type))
         = trace w @ [DbCount, DbCount, DbSearch question NUM_RELEVANT_DOCS,
             LlmInvoke prompt
               [(ascii ''context'', format_context (map fst (nearest w question NUM_RELEVANT_DOCS))),
                (ascii ''question'', question)],
             Sleep 3,
             LlmInvoke prompt
               [(ascii ''context'', format_context (map fst (nearest w question NUM_RELEVANT_DOCS))),
                (ascii ''question'', question)],
             Sleep 3,
             LlmInvoke prompt
               [(ascii ''context'', format_context (map fst (nearest w question NUM_RELEVANT_DOCS))),
                (ascii ''question'', question)]]
       \<and> fst (chat P w question prompt_type)
         = \<lparr>success = False, answer = error_prefix @ str_exn (err (invocations (trace w) + 2)),
            sources = [], has_context = None, num_sources = None,
            error = Some (str_exn (err (invocations (trace w) + 2)))\<rparr>"
proof -
  let ?w2 = "w\<lparr>trace := trace w @ [DbCount, DbCount, DbSearch question NUM_RELEVANT_DOCS]\<rparr>"
  let ?vars = "[(ascii ''context'', format_context (map fst (nearest w question NUM_RELEVANT_DOCS))),
                (ascii ''question'', question)]"
  have hd: "has_documents w = (Inr True, log DbCount w)"
    using assms(1,2) by (simp add: has_documents_def get_document_count_def collection_count_def)
  have rt: "retrieve (log DbCount w) question (Some NUM_RELEVANT_DOCS)
            = (Inr (map fst (nearest w question NUM_RELEVANT_DOCS)), ?w2)"
    using assms(3) by (simp add: retrieve_eq int_or_def NUM_RELEVANT_DOCS_def log_def)
  have "\<And>n. llm ?w2 n prompt ?vars = Inl (err n)"
    using assms(7) by simp
  from retry_exhausted [of ?w2 prompt ?vars err, OF this]
  have rx: "invoke_with_retry 3 0 ?w2 prompt ?vars
        = (Inl (err (invocations (trace w) + 2)),
           ?w2\<lparr>trace := trace ?w2 @ [LlmInvoke prompt ?vars, Sleep 3, LlmInvoke prompt ?vars,
                                      Sleep 3, LlmInvoke prompt ?vars]\<rparr>)"
    by (simp add: invocations_append invocations_simps)
  show ?thesis
    using assms(4,5,6) by (simp add: chat_def chat_body_def hd rt rx)
qed

theorem chat_retry_exhaustion_witness:
  "trace (snd (chat demo_prompts three_chunks (ascii ''Who signs?'') (ascii ''qa'')))
     = [DbCount, DbCount, DbSearch (ascii ''Who signs?'') 4,
        LlmInvoke (ascii ''{context} {question}'')
          [(ascii ''context'', format_context (map snd (entries three_chunks))),
           (ascii ''question'', ascii ''Who signs?'')],
        Sleep 3,
        LlmInvoke (ascii ''{context} {question}'')
          [(ascii ''context'', format_context (map snd (entries three_chunks))),
           (ascii ''question'', ascii ''Who signs?'')],
        Sleep 3,
        LlmInvoke (ascii ''{context} {question}'')
          [(ascii ''context'', format_context (map snd (entries three_chunks))),
           (ascii ''question'', ascii ''Who signs?'')]]
   \<and> fst (chat demo_prompts three_chunks (ascii ''Who signs?'') (ascii ''qa''))
     = \<lparr>success = False, answer = error_prefix @ ascii ''refused #2'',
        sources = [], has_context = None, num_sources = None,
        error = Some (ascii ''refused #2'')\<rparr>"
proof -
  let ?w = "three_chunks"
  have 1: "fault ?w OpCount = None" "entries ?w \<noteq> []" "fault ?w OpSearch = None"
    by (simp_all add: three_chunks_def demo_world_def)
  have 2: "nearest ?w (ascii ''Who signs?'') NUM_RELEVANT_DOCS \<noteq> []"
    by (simp add: three_chunks_def demo_world_def NUM_RELEVANT_DOCS_def)
  have 3: "get_prompt_template demo_prompts (ascii ''qa'') = Inr (ascii ''{context} {question}'')"
    "from_template demo_prompts (ascii ''{context} {question}'')
       = Inr (ascii ''{context} {question}'')"
    by (simp_all add: demo_prompts_def)
  have 4: "\<forall>n vars. llm ?w n (ascii ''{context} {question}'') vars
                 = Inl (Exception (ascii ''refused #'' @ str_nat n))"
    by (simp add: three_chunks_def demo_world_def)
  have 5: "map fst (nearest ?w (ascii ''Who signs?'') NUM_RELEVANT_DOCS)
           = map snd (entries three_chunks)"
    by (simp add: three_chunks_def demo_world_def NUM_RELEVANT_DOCS_def upt_three)
  have 6: "trace ?w = []"
    by (simp add: three_chunks_def demo_world_def)
  note th = chat_retry_exhaustion [OF 1 2 3 4, unfolded 5 6]
  show ?thesis
    using th by (simp add: str_nat_digits invocations_simps NUM_RELEVANT_DOCS_def ascii_def)
qed

text \<open>
  Claim C9.  The claim reads: the summarization flow retrieves exactly 10 chunks whatever
  the default fan-out is, invokes the model once without retry, and returns the summary
  with the de-duplicated sources.  The number 10 is the fan-out asked of the index, not
  the number of chunks retrieved: on an index that holds three chunks the flow retrieves
  and summarises three.
\<close>

theorem summarize_uses_three_chunks:
  "length (entries three_chunks) = 3
   \<and> num_chunks_used (fst (summarize demo_prompts (answering three_chunks) None)) = Some 3
   \<and> s_success (fst (summarize demo_prompts (answering three_chunks) None))"
proof -
  have d: "map fst (nearest (answering three_chunks) (summary_query None) 10)
           = [chunk ''doc.pdf'' 1 ''one'', chunk ''Doc.pdf'' 1 ''two'', chunk ''doc.pdf'' 2 ''three'']"
    by (simp add: answering_def three_chunks_def demo_world_def)
  have f: "fault (answering three_chunks) OpSearch = None"
    by (simp add: answering_def three_chunks_def demo_world_def)
  have l: "llm (answering three_chunks) = (\<lambda>n t vs. Inr (ascii ''two contracts''))"
    by (simp add: answering_def)
  have "length (entries three_chunks) = 3"
    by (simp add: three_chunks_def demo_world_def)
  then show ?thesis
    by (simp add: summarize_def summarize_body_def retrieve_eq int_or_def f d l chain_invoke_def
        log_def demo_prompts_def Let_def)
qed

text \<open>
  Claim C9, amended.  \<^verbatim>\<open>summarize\<close> asks the index for fan-out 10 whatever the default
  fan-out is (after the count that \<^verbatim>\<open>similarity_search\<close> makes) and works on the chunks the
  index returns for it; it invokes the model at most once and never pauses or retries.
  When chunks come back and the prompt is built it invokes the model exactly once: a
  failure is returned as an error result at once, and on success the result is the
  summary, the number of chunks used, and the sources of the retrieved chunks as a
  duplicate-free list in the iteration order of a set.
\<close>

theorem summarize_flow:
  "(\<forall>d. int_or (Some 10) d = 10)
   \<and> (\<exists>rest. trace (snd (summarize P w source_name))
                = trace w @ DbCount # DbSearch (summary_query source_name) 10 # rest
            \<and> (rest = [] \<or> (\<exists>p v. rest = [LlmInvoke p v])))
   \<and> (fault w OpSearch = None \<and> docs = map fst (nearest w (summary_query source_name) 10)
        \<and> docs \<noteq> [] \<and> from_template P (LEGAL_SUMMARY_PROMPT P) = Inr prompt \<longrightarrow>
        trace (snd (summarize P w source_name))
          = trace w @ [DbCount, DbSearch (summary_query source_name) 10,
                       LlmInvoke prompt [(ascii ''context'', format_context docs)]]
        \<and> (\<forall>reply. llm w (invocations (trace w)) prompt [(ascii ''context'', format_context docs)]
                     = Inr reply \<longrightarrow>
              fst (summarize P w source_name)
                = \<lparr>s_success = True, summary = reply, s_sources = Some (summary_sources w docs),
                   num_chunks_used = Some (length docs), s_error = None\<rparr>)
        \<and> (\<forall>e. llm w (invocations (trace w)) prompt [(ascii ''context'', format_context docs)]
                  = Inl e \<longrightarrow>
              fst (summarize P w source_name)
                = \<lparr>s_success = False, summary = error_prefix @ str_exn e, s_sources = None,
                   num_chunks_used = None, s_error = Some (str_exn e)\<rparr>)
        \<and> distinct (summary_sources w docs)
        \<and> set (summary_sources w docs) = src_of ` set docs)"
proof (intro conjI impI allI)
  show "int_or (Some 10) d = 10" for d
    by (simp add: int_or_def)
next
  show "\<exists>rest. trace (snd (summarize P w source_name))
                = trace w @ DbCount # DbSearch (summary_query source_name) 10 # rest
            \<and> (rest = [] \<or> (\<exists>p v. rest = [LlmInvoke p v]))"
    by (auto simp: summarize_def summarize_body_def retrieve_eq int_or_def chain_invoke_def
        log_def Let_def split: option.splits sum.splits prod.splits)
next
  assume h: "fault w OpSearch = None \<and> docs = map fst (nearest w (summary_query source_name) 10)
        \<and> docs \<noteq> [] \<and> from_template P (LEGAL_SUMMARY_PROMPT P) = Inr prompt"
  then show "trace (snd (summarize P w source_name))
          = trace w @ [DbCount, DbSearch (summary_query source_name) 10,
                       LlmInvoke prompt [(ascii ''context'', format_context docs)]]"
    by (auto simp: summarize_def summarize_body_def retrieve_eq int_or_def chain_invoke_def
        log_def Let_def split: sum.splits)
  show "distinct (summary_sources w docs)"
    by (simp add: summary_sources_def distinct_list_of_set)
  show "set (summary_sources w docs) = src_of ` set docs"
    by (auto simp: summary_sources_def set_list_of_set src_of_def)
  fix reply
  assume "llm w (invocations (trace w)) prompt [(ascii ''context'', format_context docs)]
          = Inr reply"
  with h show "fst (summarize P w source_name)
                = \<lparr>s_success = True, summary = reply, s_sources = Some (summary_sources w docs),
                   num_chunks_used = Some (length docs), s_error = None\<rparr>"
    by (auto simp: summarize_def summarize_body_def retrieve_eq int_or_def chain_invoke_def
        log_def Let_def invocations_append invocations_simps summary_sources_def
        list_of_set_def)
next
  fix e
  assume h: "fault w OpSearch = None \<and> docs = map fst (nearest w (summary_query source_name) 10)
        \<and> docs \<noteq> [] \<and> from_template P (LEGAL_SUMMARY_PROMPT P) = Inr prompt"
  assume "llm w (invocations (trace w)) prompt [(ascii ''context'', format_context docs)] = Inl e"
  with h show "fst (summarize P w source_name)
                = \<lparr>s_success = False, summary = error_prefix @ str_exn e, s_sources = None,
                   num_chunks_used = None, s_error = Some (str_exn e)\<rparr>"
    by (auto simp: summarize_def summarize_body_def retrieve_eq int_or_def chain_invoke_def
        log_def Let_def invocations_append invocations_simps)
qed

theorem summarize_flow_witness:
  "trace (snd (summarize demo_prompts (answering three_chunks) None))
     = [DbCount, DbSearch (summary_query None) 10,
        LlmInvoke (ascii ''summarize: {context}'')
          [(ascii ''context'', format_context (map snd (entries three_chunks)))]]
   \<and> fst (summarize demo_prompts (answering three_chunks) None)
     = \<lparr>s_success = True, summary = ascii ''two contracts'',
        s_sources = Some [VStr (ascii ''Doc.pdf''), VStr (ascii ''doc.pdf'')],
        num_chunks_used = Some 3, s_error = None\<rparr>
   \<and> fst (summarize demo_prompts three_chunks None)
     = \<lparr>s_success = False, summary = error_prefix @ ascii ''refused #0'', s_sources = None,
        num_chunks_used = None, s_error = Some (ascii ''refused #0'')\<rparr>
   \<and> trace (snd (summarize demo_prompts three_chunks None))
     = [DbCount, DbSearch (summary_query None) 10,
        LlmInvoke (ascii ''summarize: {context}'')
          [(ascii ''context'', format_context (map snd (entries three_chunks)))]]"
proof -
  let ?docs = "map snd (entries three_chunks)"
  let ?p = "ascii ''summarize: {context}''"
  note ups = upt_three
  have d: "?docs = [chunk ''doc.pdf'' 1 ''one'', chunk ''Doc.pdf'' 1 ''two'',
                    chunk ''doc.pdf'' 2 ''three'']"
    by (simp add: three_chunks_def demo_world_def ups)
  have a: "fault (answering three_chunks) OpSearch = None
           \<and> ?docs = map fst (nearest (answering three_chunks) (summary_query None) 10)
           \<and> ?docs \<noteq> [] \<and> from_template demo_prompts (LEGAL_SUMMARY_PROMPT demo_prompts) = Inr ?p"
    by (simp add: d) (simp add: answering_def three_chunks_def demo_world_def demo_prompts_def)
  have r: "fault three_chunks OpSearch = None
           \<and> ?docs = map fst (nearest three_chunks (summary_query None) 10)
           \<and> ?docs \<noteq> [] \<and> from_template demo_prompts (LEGAL_SUMMARY_PROMPT demo_prompts) = Inr ?p"
    by (simp add: d) (simp add: three_chunks_def demo_world_def demo_prompts_def)
  have la: "llm (answering three_chunks) (invocations (trace (answering three_chunks))) ?p
              [(ascii ''context'', format_context ?docs)] = Inr (ascii ''two contracts'')"
    by (simp add: answering_def)
  have lr: "llm three_chunks (invocations (trace three_chunks)) ?p
              [(ascii ''context'', format_context ?docs)] = Inl (Exception (ascii ''refused #0''))"
    by (simp add: three_chunks_def demo_world_def invocations_simps str_nat.simps ascii_def)
  have ta: "trace (answering three_chunks) = []" "trace three_chunks = []"
    by (simp_all add: answering_def three_chunks_def demo_world_def)
  have ss: "summary_sources (answering three_chunks) ?docs
            = [VStr (ascii ''Doc.pdf''), VStr (ascii ''doc.pdf'')]"
    unfolding d
    by (simp add: summary_sources_def list_of_set_def answering_def three_chunks_def
        demo_world_def chunk_def dict_get_def ascii_def)
  have len: "length ?docs = 3"
    by (simp add: d)
  have A: "trace (snd (summarize demo_prompts (answering three_chunks) None))
             = trace (answering three_chunks) @ [DbCount, DbSearch (summary_query None) 10,
                  LlmInvoke ?p [(ascii ''context'', format_context ?docs)]]
           \<and> fst (summarize demo_prompts (answering three_chunks) None)
             = \<lparr>s_success = True, summary = ascii ''two contracts'',
                s_sources = Some (summary_sources (answering three_chunks) ?docs),
                num_chunks_used = Some (length ?docs), s_error = None\<rparr>"
    using summarize_flow [of demo_prompts "answering three_chunks" None ?docs ?p] a la
    by blast
  have B: "trace (snd (summarize demo_prompts three_chunks None))
             = trace three_chunks @ [DbCount, DbSearch (summary_query None) 10,
                  LlmInvoke ?p [(ascii ''context'', format_context ?docs)]]
           \<and> fst (summarize demo_prompts three_chunks None)
             = \<lparr>s_success = False,
                summary = error_prefix @ str_exn (Exception (ascii ''refused #0'')),
                s_sources = None, num_chunks_used = None,
                s_error = Some (str_exn (Exception (ascii ''refused #0'')))\<rparr>"
    using summarize_flow [of demo_prompts three_chunks None ?docs ?p] r lr
    by blast
  from A B show ?thesis
    unfolding ta ss len by simp
qed


section \<open>The text normalizer\<close>

text \<open>
  The digits-only pattern of \<^verbatim>\<open>remove_page_numbers\<close> takes a page number at the start of a
  line; unlike the two patterns for the word ``page'', it allows no whitespace in front.
\<close>

lemma remove_page_numbers_plain: "remove_page_numbers (ascii ''12'') = []"
  by (simp add: eval_defs)

lemma remove_page_numbers_indented: "remove_page_numbers (ascii '' 12'') = ascii '' 12''"
  by (simp add: eval_defs)

lemma remove_page_numbers_indented_word: "remove_page_numbers (ascii '' Page 12'') = []"
  by (simp add: eval_defs)







end
